theory Spec2Isabelle
  imports Complex_Main "HOL-Library.List_Lexorder" "HOL-Library.Char_ord"
begin

section \<open>Python values and exceptions\<close>

text \<open>
  The endpoint \<^verbatim>\<open>ProjectDynamicSamplingDistributionEndpoint\<close> of
  \<^verbatim>\<open>sentry/api/endpoints/project_dynamic_sampling.py\<close> and its helper
  \<^verbatim>\<open>percentile_fn\<close> are embedded as HOL functions. Python floats are read
  as exact rationals (no rounding, no \<^verbatim>\<open>nan\<close>, no \<^verbatim>\<open>inf\<close>); an uncaught exception
  is the left injection of a sum type. \<open>UpstreamQueryError\<close> stands for any exception that
  \<^verbatim>\<open>discover.query\<close> raises.

  Reading floats as rationals makes products and sums exact, where Python rounds them:
  \<^verbatim>\<open>50 * 0.58\<close> is \<^verbatim>\<open>28.999999999999996\<close> in Python and 29 here, and a float sum
  depends on the order of its terms. The statements below are about what the two readings
  share: the products \<open>n * 0.5\<close>, which are exact in floats; the four percentiles that
  \<^verbatim>\<open>_get_sample_rates_data\<close> asks for, whose indices stay inside the list in either
  reading; and concrete inputs on which rounding changes no branch. A mean is the exact
  quotient here, which the float result approximates.
\<close>

datatype error = TypeError | ValueError | IndexError | ZeroDivisionError | UpstreamQueryError

text \<open>\<^verbatim>\<open>lst[i]\<close> on a Python list: a negative index counts from the end, an index
  outside \<^verbatim>\<open>-len(lst) .. len(lst) - 1\<close> raises.\<close>

definition list_getitem :: "'a list \<Rightarrow> int \<Rightarrow> error + 'a" where
  "list_getitem lst i =
     (if 0 \<le> i \<and> i < int (length lst) then Inr (lst ! nat i)
      else if - int (length lst) \<le> i \<and> i < 0 then Inr (lst ! nat (int (length lst) + i))
      else Inl IndexError)"

text \<open>\<^verbatim>\<open>a / b\<close> on numbers raises on a zero divisor.\<close>

definition py_truediv :: "rat \<Rightarrow> rat \<Rightarrow> error + rat" where
  "py_truediv a b = (if b = 0 then Inl ZeroDivisionError else Inr (a / b))"

text \<open>\<^verbatim>\<open>float.is_integer()\<close>, \<^verbatim>\<open>int(x)\<close> (truncation towards zero) and
  \<^verbatim>\<open>math.ceil(x)\<close>.\<close>

definition is_integer :: "rat \<Rightarrow> bool" where
  "is_integer x = (of_int \<lfloor>x\<rfloor> = x)"

definition py_int :: "rat \<Rightarrow> int" where
  "py_int x = (if 0 \<le> x then \<lfloor>x\<rfloor> else \<lceil>x\<rceil>)"

definition math_ceil :: "rat \<Rightarrow> int" where
  "math_ceil x = \<lceil>x\<rceil>"

section \<open>The function \<^verbatim>\<open>percentile_fn\<close>\<close>

definition percentile_fn :: "'a list \<Rightarrow> rat \<Rightarrow> error + 'a option" where
  "percentile_fn data percentile =
     (if length data = 0 then Inr None
      else
        let pecentile_idx = of_nat (length data) * percentile in
        if is_integer pecentile_idx then
          (case list_getitem data (py_int pecentile_idx) of
             Inl e \<Rightarrow> Inl e
           | Inr v \<Rightarrow> Inr (Some v))
        else
          (case list_getitem data (math_ceil pecentile_idx - 1) of
             Inl e \<Rightarrow> Inl e
           | Inr v \<Rightarrow> Inr (Some v)))"

section \<open>The function \<^verbatim>\<open>_get_sample_rates_data\<close>\<close>

text \<open>The dictionary returned by \<^verbatim>\<open>_get_sample_rates_data\<close> has the seven fixed keys
  \<^verbatim>\<open>min, max, mean, p50, p90, p95, p99\<close>; \<^verbatim>\<open>None\<close> is \<^term>\<open>None\<close>.\<close>

record distribution =
  min_val :: "rat option"
  max_val :: "rat option"
  mean :: "rat option"
  p50 :: "rat option"
  p90 :: "rat option"
  p95 :: "rat option"
  p99 :: "rat option"

text \<open>\<^verbatim>\<open>min(lst, default=None)\<close> and \<^verbatim>\<open>max(lst, default=None)\<close>: one pass over the
  list, keeping the best element so far.\<close>

fun py_min :: "rat list \<Rightarrow> rat option" where
  "py_min [] = None"
| "py_min (x # xs) = Some (fold min xs x)"

fun py_max :: "rat list \<Rightarrow> rat option" where
  "py_max [] = None"
| "py_max (x # xs) = Some (fold max xs x)"

text \<open>The dictionary comprehension calls the seven functions in the order of their keys;
  the first exception escapes.\<close>

definition get_sample_rates_data :: "rat list \<Rightarrow> error + distribution" where
  "get_sample_rates_data data =
     (case (if length data > 0
            then (case py_truediv (sum_list data) (of_nat (length data)) of
                    Inl e \<Rightarrow> Inl e
                  | Inr m \<Rightarrow> Inr (Some m))
            else Inr None) of Inl e \<Rightarrow> Inl e | Inr vmean \<Rightarrow>
     (case percentile_fn data (5 / 10) of Inl e \<Rightarrow> Inl e | Inr v50 \<Rightarrow>
     (case percentile_fn data (9 / 10) of Inl e \<Rightarrow> Inl e | Inr v90 \<Rightarrow>
     (case percentile_fn data (95 / 100) of Inl e \<Rightarrow> Inl e | Inr v95 \<Rightarrow>
     (case percentile_fn data (99 / 100) of Inl e \<Rightarrow> Inl e | Inr v99 \<Rightarrow>
        Inr \<lparr> min_val = py_min data,
              max_val = py_max data,
              mean = vmean,
              p50 = v50, p90 = v90, p95 = v95, p99 = v99 \<rparr>)))))"

section \<open>Rows of the query service\<close>

text \<open>
  A cell of a result row is \<^verbatim>\<open>None\<close>, a string or a number; a row is a dictionary
  from column names to cells, and \<^verbatim>\<open>row.get(key)\<close> is \<^verbatim>\<open>None\<close> for a missing key.
\<close>

datatype pyval = PyNone | PyStr string | PyNum rat

type_synonym row = "(string \<times> pyval) list"

definition dict_get :: "row \<Rightarrow> string \<Rightarrow> pyval" where
  "dict_get d k = (case map_of d k of None \<Rightarrow> PyNone | Some v \<Rightarrow> v)"

fun is_str :: "pyval \<Rightarrow> bool" where
  "is_str (PyStr s) = True"
| "is_str v = False"

fun is_num :: "pyval \<Rightarrow> bool" where
  "is_num (PyNum r) = True"
| "is_num v = False"

fun str_of :: "pyval \<Rightarrow> string" where
  "str_of (PyStr s) = s"
| "str_of v = []"

fun num_of :: "pyval \<Rightarrow> rat" where
  "num_of (PyNum r) = r"
| "num_of v = 0"

text \<open>
  \<^verbatim>\<open>sorted(values)\<close>: with fewer than two elements nothing is compared. Otherwise
  every element is compared with another one, and \<^verbatim>\<open><\<close> is defined between two strings
  (by code points) and between two numbers only: a \<^verbatim>\<open>None\<close> or a mix of strings and
  numbers raises \<^verbatim>\<open>TypeError\<close>.
\<close>

definition py_sorted :: "pyval list \<Rightarrow> error + pyval list" where
  "py_sorted vs =
     (if length vs \<le> 1 then Inr vs
      else if list_all is_str vs then Inr (map PyStr (sort (map str_of vs)))
      else if list_all is_num vs then Inr (map PyNum (sort (map num_of vs)))
      else Inl TypeError)"

text \<open>
  \<^verbatim>\<open>float(v)\<close>: a number is itself, \<^verbatim>\<open>None\<close> raises \<^verbatim>\<open>TypeError\<close>, and a string is parsed
  by the interpreter. The parser is the parameter \<open>float_of_str\<close>; where it gives
  \<^term>\<open>None\<close> the call raises \<^verbatim>\<open>ValueError\<close>.
\<close>

definition py_float :: "(string \<Rightarrow> rat option) \<Rightarrow> pyval \<Rightarrow> error + rat" where
  "py_float float_of_str v =
     (case v of
        PyNum r \<Rightarrow> Inr r
      | PyStr s \<Rightarrow> (case float_of_str s of None \<Rightarrow> Inl ValueError | Some r \<Rightarrow> Inr r)
      | PyNone \<Rightarrow> Inl TypeError)"

text \<open>The generator
  \<^verbatim>\<open>float(sample_rate) for sample_rate in sample_rates if sample_rate not in {"", None}\<close>,
  consumed from left to right.\<close>

fun float_sample_rates :: "(string \<Rightarrow> rat option) \<Rightarrow> pyval list \<Rightarrow> error + rat list" where
  "float_sample_rates float_of_str [] = Inr []"
| "float_sample_rates float_of_str (sample_rate # sample_rates) =
     (if sample_rate = PyStr [] \<or> sample_rate = PyNone
      then float_sample_rates float_of_str sample_rates
      else
        (case py_float float_of_str sample_rate of
           Inl e \<Rightarrow> Inl e
         | Inr r \<Rightarrow>
             (case float_sample_rates float_of_str sample_rates of
                Inl e \<Rightarrow> Inl e
              | Inr rs \<Rightarrow> Inr (r # rs))))"

text \<open>\<^verbatim>\<open>sep.join(items)\<close>: every item has to be a string.\<close>

fun py_join :: "string \<Rightarrow> pyval list \<Rightarrow> error + string" where
  "py_join sep [] = Inr []"
| "py_join sep [v] = (if is_str v then Inr (str_of v) else Inl TypeError)"
| "py_join sep (v # vs) =
     (if is_str v
      then (case py_join sep vs of Inl e \<Rightarrow> Inl e | Inr r \<Rightarrow> Inr (str_of v @ sep @ r))
      else Inl TypeError)"

section \<open>The endpoint\<close>

text \<open>
  One call of \<^verbatim>\<open>discover.query\<close>. The keyword arguments that are the same constants in
  both calls of the endpoint (\<^verbatim>\<open>equations\<close>, \<^verbatim>\<open>auto_fields\<close>, \<^verbatim>\<open>auto_aggregations\<close>,
  \<^verbatim>\<open>allow_metric_aggregates\<close>, \<^verbatim>\<open>use_aggregate_conditions\<close>,
  \<^verbatim>\<open>transform_alias_to_input_format\<close>) are left out.
\<close>

record query_call =
  selected_columns :: "string list"
  query :: string
  params_start :: int
  params_end :: int
  params_project_id :: "nat list"
  params_organization_id :: nat
  orderby :: "string list"
  offset :: nat
  limit :: int
  functions_acl :: "string list"
  referrer :: string

text \<open>
  What the handler reads from its surroundings, after parsing: the feature flag, the
  \<^verbatim>\<open>GET\<close> parameters with their defaults filled in (\<^verbatim>\<open>sampleSize\<close> as the integer
  \<^verbatim>\<open>int(...)\<close> gave, \<^verbatim>\<open>statsPeriod\<close> as the seconds \<^verbatim>\<open>parse_stats_period\<close> gave), the
  clock in seconds, the project and the projects of its organization.
\<close>

record request =
  has_feature :: bool
  GET_query :: string
  GET_sampleSize :: int
  GET_distributedTrace :: string
  GET_statsPeriod :: int
  timezone_now :: int
  project_id :: nat
  project_organization :: nat
  projects_in_org :: "nat list"

record report =
  project_breakdown :: "row list option"
  sample_size :: nat
  null_sample_rate_percentage :: "rat option"
  sample_rate_distributions :: "distribution option"

datatype body = Detail "string list" | Details string | Report report

record response =
  status_code :: nat
  response_data :: body

text \<open>The window and the size of the sample, as \<^verbatim>\<open>get\<close> computes them from the
  request.\<close>

definition requested_sample_size :: "request \<Rightarrow> int" where
  "requested_sample_size request = min (GET_sampleSize request) 1000"

definition stats_period :: "request \<Rightarrow> int" where
  "stats_period request = min (GET_statsPeriod request) (24 * 3600)"

definition end_time :: "request \<Rightarrow> int" where
  "end_time request = timezone_now request"

definition start_time :: "request \<Rightarrow> int" where
  "start_time request = end_time request - stats_period request"

text \<open>The arguments of the first \<^verbatim>\<open>discover.query\<close>: the random sample of root
  transactions.\<close>

definition root_transactions_call :: "request \<Rightarrow> query_call" where
  "root_transactions_call request =
     \<lparr> selected_columns =
         [''id'', ''trace'', ''trace.client_sample_rate'', ''random_number() AS random_number''],
       query = GET_query request @ '' event.type:transaction !has:trace.parent_span_id'',
       params_start = start_time request,
       params_end = end_time request,
       params_project_id = [project_id request],
       params_organization_id = project_organization request,
       orderby = [''-random_number''],
       offset = 0,
       limit = requested_sample_size request,
       functions_acl = [''random_number''],
       referrer = ''dynamic-sampling.distribution.fetch-parent-transactions'' \<rparr>"

text \<open>The arguments of the second \<^verbatim>\<open>discover.query\<close>: the project breakdown of the
  traces, whose identifiers arrive joined by commas.\<close>

definition project_breakdown_call :: "request \<Rightarrow> string \<Rightarrow> query_call" where
  "project_breakdown_call request joined =
     \<lparr> selected_columns = [''project'', ''count()''],
       query = ''event.type:transaction trace:['' @ joined @ '']'',
       params_start = start_time request,
       params_end = end_time request,
       params_project_id = projects_in_org request,
       params_organization_id = project_organization request,
       orderby = [],
       offset = 0,
       limit = 20,
       functions_acl = [],
       referrer = ''dynamic-sampling.distribution.fetch-project-breakdown'' \<rparr>"

text \<open>
  \<^verbatim>\<open>get\<close> takes the query service as a function from a call to the rows under
  \<^verbatim>\<open>"data"\<close> (or the exception it raises) and returns the response (or the exception
  that escapes) together with the calls it made, in order. A local variable whose name is
  also a key of the response carries a prime.
\<close>

definition get ::
  "(string \<Rightarrow> rat option) \<Rightarrow> (query_call \<Rightarrow> error + row list) \<Rightarrow> request
     \<Rightarrow> (error + response) \<times> query_call list" where
  "get float_of_str discover_query request =
    (if \<not> has_feature request then
       (Inr \<lparr> status_code = 404,
              response_data = Detail [''Dynamic sampling feature flag needs to be enabled before you can perform this action.''] \<rparr>,
        [])
     else
       (let distributed_trace = (GET_distributedTrace request = ''1'');
            root_call = root_transactions_call request
        in
        (case discover_query root_call of
           Inl e \<Rightarrow> (Inl e, [root_call])
         | Inr root_transactions \<Rightarrow>
        (let sample_size' = length root_transactions in
        (case py_sorted (map (\<lambda>transaction. dict_get transaction ''trace.client_sample_rate'')
                           root_transactions) of
           Inl e \<Rightarrow> (Inl e, [root_call])
         | Inr sample_rates \<Rightarrow>
        (if length sample_rates = 0 then
           (Inr \<lparr> status_code = 200,
                  response_data = Report \<lparr> project_breakdown = None,
                                  sample_size = sample_size',
                                  null_sample_rate_percentage = None,
                                  sample_rate_distributions = None \<rparr> \<rparr>,
            [root_call])
         else
        (case float_sample_rates float_of_str sample_rates of
           Inl e \<Rightarrow> (Inl e, [root_call])
         | Inr floats \<Rightarrow>
        (let non_null_sample_rates = sort floats;
             final = (\<lambda>project_breakdown'.
               (case py_truediv
                       (of_int (int sample_size' - int (length non_null_sample_rates)))
                       (of_nat sample_size') of
                  Inl e \<Rightarrow> Inl e
                | Inr ratio \<Rightarrow>
               (case get_sample_rates_data non_null_sample_rates of
                  Inl e \<Rightarrow> Inl e
                | Inr distributions \<Rightarrow>
                    Inr \<lparr> status_code = 200,
                          response_data = Report \<lparr>
                            project_breakdown = project_breakdown',
                            sample_size = sample_size',
                            null_sample_rate_percentage = Some (ratio * 100),
                            sample_rate_distributions = Some distributions \<rparr> \<rparr>)))
         in
         if distributed_trace then
           (let trace_id_list =
                  map (\<lambda>transaction. dict_get transaction ''trace'') root_transactions
            in
            (case py_join '','' trace_id_list of
               Inl e \<Rightarrow> (Inl e, [root_call])
             | Inr joined \<Rightarrow>
            (let breakdown_call = project_breakdown_call request joined in
             (case discover_query breakdown_call of
                Inl e \<Rightarrow> (Inl e, [root_call, breakdown_call])
              | Inr project_breakdown' \<Rightarrow>
                  (if length project_breakdown' > 10 then
                     (Inr \<lparr> status_code = 400,
                            response_data = Details ''Way too many projects in the distributed trace's project breakdown'' \<rparr>,
                      [root_call, breakdown_call])
                   else (final (Some project_breakdown'), [root_call, breakdown_call]))))))
         else (final None, [root_call])))))))))"

section \<open>Sample inputs\<close>

text \<open>
  Concrete requests, rows and query services on which the theorems below are
  instantiated. \<open>sample_float_of_str\<close> reads the three literals that occur in them.
\<close>

definition sample_float_of_str :: "string \<Rightarrow> rat option" where
  "sample_float_of_str s =
     (if s = ''0.1'' then Some (1 / 10)
      else if s = ''0.2'' then Some (2 / 10)
      else if s = ''0.5'' then Some (5 / 10)
      else None)"

definition sample_request :: "string \<Rightarrow> request" where
  "sample_request distributedTrace =
     \<lparr> has_feature = True,
       GET_query = [],
       GET_sampleSize = 100,
       GET_distributedTrace = distributedTrace,
       GET_statsPeriod = 3600,
       timezone_now = 1650000000,
       project_id = 1,
       project_organization = 1,
       projects_in_org = [1, 2, 3] \<rparr>"

definition sample_rows :: "pyval list \<Rightarrow> row list" where
  "sample_rows rates =
     map (\<lambda>rate. [(''id'', PyStr ''6ddc83ee''),
                  (''trace'', PyStr ''6503ee33''),
                  (''trace.client_sample_rate'', rate),
                  (''random_number() AS random_number'', PyNum 42)]) rates"

definition sample_breakdown :: "nat \<Rightarrow> row list" where
  "sample_breakdown n =
     map (\<lambda>i. [(''project'', PyStr (replicate (Suc i) CHR ''p'')), (''count()'', PyNum 1)])
       [0..<n]"

definition sample_discover :: "row list \<Rightarrow> row list \<Rightarrow> query_call \<Rightarrow> error + row list" where
  "sample_discover root_rows breakdown_rows call =
     (if referrer call = ''dynamic-sampling.distribution.fetch-parent-transactions''
      then Inr root_rows
      else Inr breakdown_rows)"

definition sample_discover_failing :: "row list \<Rightarrow> query_call \<Rightarrow> error + row list" where
  "sample_discover_failing root_rows call =
     (if referrer call = ''dynamic-sampling.distribution.fetch-parent-transactions''
      then Inr root_rows
      else Inl UpstreamQueryError)"

section \<open>Properties of \<^verbatim>\<open>percentile_fn\<close>\<close>

text \<open>For a fraction \<open>p\<close> with \<open>0 \<le> p < 1\<close> and the exact product \<open>len(data) * p\<close>,
  the index that \<^const>\<open>percentile_fn\<close> computes lies inside a non-empty list, so the
  call returns one of its elements.\<close>

lemma percentile_fn_exact:
  fixes data :: "'a list"
  assumes "data \<noteq> []" and "0 \<le> p" and "p < 1"
    and "is_integer (of_nat (length data) * p)"
  shows "0 \<le> \<lfloor>of_nat (length data) * p\<rfloor>
       \<and> nat \<lfloor>of_nat (length data) * p\<rfloor> < length data
       \<and> percentile_fn data p = Inr (Some (data ! nat \<lfloor>of_nat (length data) * p\<rfloor>))"
proof -
  define idx where "idx = rat_of_nat (length data) * p"
  have lo: "0 \<le> idx" unfolding idx_def using assms(2) by simp
  have hi: "idx < of_nat (length data)" unfolding idx_def using assms(1,3)
    by (simp add: mult_less_cancel_left2)
  have int: "is_integer idx" unfolding idx_def by (rule assms(4))
  have fl0: "0 \<le> \<lfloor>idx\<rfloor>" using lo by simp
  have fl1: "\<lfloor>idx\<rfloor> < int (length data)" using hi by (simp add: floor_less_iff)
  have fl2: "nat \<lfloor>idx\<rfloor> < length data" using fl0 fl1 by linarith
  have "percentile_fn data p = Inr (Some (data ! nat \<lfloor>idx\<rfloor>))"
    using int fl0 fl1 assms(1) lo
    by (simp add: percentile_fn_def Let_def idx_def[symmetric] py_int_def list_getitem_def)
  then show ?thesis using fl0 fl2 unfolding idx_def by blast
qed

lemma percentile_fn_inexact:
  fixes data :: "'a list"
  assumes "data \<noteq> []" and "0 \<le> p" and "p < 1"
    and "\<not> is_integer (of_nat (length data) * p)"
  shows "0 \<le> \<lceil>of_nat (length data) * p\<rceil> - 1
       \<and> nat (\<lceil>of_nat (length data) * p\<rceil> - 1) < length data
       \<and> percentile_fn data p = Inr (Some (data ! nat (\<lceil>of_nat (length data) * p\<rceil> - 1)))"
proof -
  define idx where "idx = rat_of_nat (length data) * p"
  have lo: "0 \<le> idx" unfolding idx_def using assms(2) by simp
  have hi: "idx < of_nat (length data)" unfolding idx_def using assms(1,3)
    by (simp add: mult_less_cancel_left2)
  have frac: "\<not> is_integer idx" unfolding idx_def by (rule assms(4))
  then have "idx \<noteq> 0" by (auto simp: is_integer_def)
  then have pos: "0 < idx" using lo by simp
  then have c1: "1 \<le> \<lceil>idx\<rceil>" by (simp add: less_ceiling_iff)
  have c2: "\<lceil>idx\<rceil> \<le> int (length data)" using hi by (simp add: ceiling_le_iff)
  have c3: "nat (\<lceil>idx\<rceil> - 1) < length data" using c1 c2 by linarith
  have "percentile_fn data p = Inr (Some (data ! nat (\<lceil>idx\<rceil> - 1)))"
    using frac c1 c2 assms(1)
    by (simp add: percentile_fn_def Let_def idx_def[symmetric] math_ceil_def list_getitem_def)
  then show ?thesis using c1 c3 unfolding idx_def by simp
qed

lemma percentile_fn_member:
  assumes "data \<noteq> []" and "0 \<le> p" and "p < 1"
  shows "\<exists>v \<in> set data. percentile_fn data p = Inr (Some v)"
proof (cases "is_integer (of_nat (length data) * p)")
  case True
  then show ?thesis using percentile_fn_exact[OF assms True] by (metis nth_mem)
next
  case False
  then show ?thesis using percentile_fn_inexact[OF assms False] by (metis nth_mem)
qed

text \<open>At \<open>p = 0.5\<close> the product is exact in floats as well: the call returns the element
  at position \<open>len(data) // 2\<close> of the list as it is given.\<close>

lemma percentile_fn_median:
  fixes data :: "'a list"
  assumes "data \<noteq> []"
  shows "percentile_fn data (5 / 10) = Inr (Some (data ! (length data div 2)))"
proof (cases "even (length data)")
  case True
  then obtain k where k: "length data = 2 * k" by (auto elim: evenE)
  have idx: "rat_of_nat (length data) * (5 / 10) = of_int (int k)" using k by simp
  have int: "is_integer (rat_of_nat (length data) * (5 / 10))"
    unfolding idx is_integer_def by simp
  have "nat \<lfloor>rat_of_nat (length data) * (5 / 10)\<rfloor> = length data div 2"
    unfolding idx using k by simp
  then show ?thesis
    using percentile_fn_exact[OF assms _ _ int] by simp
next
  case False
  then obtain k where k: "length data = 2 * k + 1" by (auto elim: oddE)
  have idx: "rat_of_nat (length data) * (5 / 10) = of_int (int k) + 1 / 2" using k by simp
  have fl: "\<lfloor>rat_of_nat (length data) * (5 / 10)\<rfloor> = int k" unfolding idx by linarith
  have ce: "\<lceil>rat_of_nat (length data) * (5 / 10)\<rceil> = int k + 1" unfolding idx by linarith
  have frac: "\<not> is_integer (rat_of_nat (length data) * (5 / 10))"
    unfolding is_integer_def fl unfolding idx by simp
  have "nat (\<lceil>rat_of_nat (length data) * (5 / 10)\<rceil> - 1) = length data div 2"
    unfolding ce using k by simp
  then show ?thesis
    using percentile_fn_inexact[OF assms _ _ frac] by simp
qed

text \<open>
  \<^bold>\<open>C1\<close>. The rule says that \<^const>\<open>percentile_fn\<close> returns the element at position
  \<open>idx = len(data) * p\<close> when \<open>idx\<close> is an exact integer. On the one-element list
  \<^verbatim>\<open>[10]\<close> with \<open>p = 1.0\<close>, a value that the docstring admits, \<open>idx\<close> is the exact integer
  1, one past the last position: the call raises \<^verbatim>\<open>IndexError\<close> and returns nothing.
\<close>

theorem percentile_fn_at_one_raises:
  "[10 :: int] \<noteq> []
   \<and> is_integer (of_nat (length [10 :: int]) * 1)
   \<and> percentile_fn [10 :: int] 1 = Inl IndexError"
  by code_simp

text \<open>
  \<^bold>\<open>C9\<close> (as amended). On the reference list \<^verbatim>\<open>[10, 20, 30, 40]\<close> the product
  \<open>4 * 0.25\<close> is the exact integer 1, so the 25th percentile is the element at position 1,
  which is 20; the 90th percentile is 40.
\<close>

theorem reference_table:
  "percentile_fn [10, 20, 30, 40 :: int] (25 / 100) = Inr (Some 20)
   \<and> percentile_fn [10, 20, 30, 40 :: int] (9 / 10) = Inr (Some 40)"
  by code_simp

text \<open>The 25th percentile of the reference list is not 10.\<close>

theorem reference_table_counterexample:
  "percentile_fn [10, 20, 30, 40 :: int] (25 / 100) \<noteq> Inr (Some 10)"
  by code_simp

section \<open>Properties of \<^verbatim>\<open>_get_sample_rates_data\<close>\<close>

lemma py_min_Min:
  assumes "data \<noteq> []"
  shows "py_min data = Some (Min (set data))"
proof (cases data)
  case Nil then show ?thesis using assms by simp
next
  case (Cons x xs)
  have "Min (set (x # xs)) = fold min xs x" by (rule Min.set_eq_fold)
  then show ?thesis using Cons by simp
qed

lemma py_max_Max:
  assumes "data \<noteq> []"
  shows "py_max data = Some (Max (set data))"
proof (cases data)
  case Nil then show ?thesis using assms by simp
next
  case (Cons x xs)
  have "Max (set (x # xs)) = fold max xs x" by (rule Max.set_eq_fold)
  then show ?thesis using Cons by simp
qed

lemma get_sample_rates_data_nonempty:
  assumes "data \<noteq> []"
  shows "\<exists>v50 \<in> set data. \<exists>v90 \<in> set data. \<exists>v95 \<in> set data. \<exists>v99 \<in> set data.
           get_sample_rates_data data =
             Inr \<lparr> min_val = Some (Min (set data)), max_val = Some (Max (set data)),
                   mean = Some (sum_list data / of_nat (length data)),
                   p50 = Some v50, p90 = Some v90, p95 = Some v95, p99 = Some v99 \<rparr>"
proof -
  obtain v50 where a: "v50 \<in> set data" "percentile_fn data (5 / 10) = Inr (Some v50)"
    using percentile_fn_member[OF assms, of "5 / 10"] by auto
  obtain v90 where b: "v90 \<in> set data" "percentile_fn data (9 / 10) = Inr (Some v90)"
    using percentile_fn_member[OF assms, of "9 / 10"] by auto
  obtain v95 where c: "v95 \<in> set data" "percentile_fn data (95 / 100) = Inr (Some v95)"
    using percentile_fn_member[OF assms, of "95 / 100"] by auto
  obtain v99 where d: "v99 \<in> set data" "percentile_fn data (99 / 100) = Inr (Some v99)"
    using percentile_fn_member[OF assms, of "99 / 100"] by auto
  have "get_sample_rates_data data =
             Inr \<lparr> min_val = Some (Min (set data)), max_val = Some (Max (set data)),
                   mean = Some (sum_list data / of_nat (length data)),
                   p50 = Some v50, p90 = Some v90, p95 = Some v95, p99 = Some v99 \<rparr>"
    using assms a(2) b(2) c(2) d(2)
    by (simp add: get_sample_rates_data_def py_truediv_def py_min_Min py_max_Max)
  then show ?thesis using a(1) b(1) c(1) d(1) by blast
qed

lemma get_sample_rates_data_empty:
  "get_sample_rates_data [] =
     Inr \<lparr> min_val = None, max_val = None, mean = None,
           p50 = None, p90 = None, p95 = None, p99 = None \<rparr>"
  by (simp add: get_sample_rates_data_def percentile_fn_def)

lemma get_sample_rates_data_total: "\<exists>d. get_sample_rates_data data = Inr d"
proof (cases "data = []")
  case True then show ?thesis by (simp add: get_sample_rates_data_empty)
next
  case False then show ?thesis using get_sample_rates_data_nonempty[OF False] by blast
qed

text \<open>
  \<^bold>\<open>C8\<close>. Summarizing the empty list gives the record whose seven fields are all
  \<^verbatim>\<open>None\<close>; the division of the mean is not reached, so no \<^verbatim>\<open>ZeroDivisionError\<close>
  escapes.
\<close>

theorem summarize_empty:
  "get_sample_rates_data [] =
     Inr \<lparr> min_val = None, max_val = None, mean = None,
           p50 = None, p90 = None, p95 = None, p99 = None \<rparr>
   \<and> get_sample_rates_data [] \<noteq> Inl ZeroDivisionError"
  by (simp add: get_sample_rates_data_def percentile_fn_def)

text \<open>
  \<^bold>\<open>C7\<close>. For every non-empty list of values the summary is returned and its fields
  satisfy \<open>min \<le> p50 \<le> max\<close>.
\<close>

theorem summarize_min_p50_max:
  assumes "data \<noteq> []"
  shows "\<exists>d a b c. get_sample_rates_data data = Inr d
           \<and> min_val d = Some a \<and> p50 d = Some b \<and> max_val d = Some c
           \<and> a \<le> b \<and> b \<le> c"
proof -
  obtain v50 v90 v95 v99 where m: "v50 \<in> set data"
    and d: "get_sample_rates_data data =
             Inr \<lparr> min_val = Some (Min (set data)), max_val = Some (Max (set data)),
                   mean = Some (sum_list data / of_nat (length data)),
                   p50 = Some v50, p90 = Some v90, p95 = Some v95, p99 = Some v99 \<rparr>"
    using get_sample_rates_data_nonempty[OF assms] by blast
  have "Min (set data) \<le> v50" using m by simp
  moreover have "v50 \<le> Max (set data)" using m by simp
  ultimately show ?thesis using d by simp
qed

theorem summarize_min_p50_max_witness:
  "[3, 1, 2 :: rat] \<noteq> []
   \<and> (\<exists>d a b c. get_sample_rates_data [3, 1, 2] = Inr d
           \<and> min_val d = Some a \<and> p50 d = Some b \<and> max_val d = Some c
           \<and> a \<le> b \<and> b \<le> c)"
proof -
  have h: "[3, 1, 2 :: rat] \<noteq> []" by simp
  show ?thesis using summarize_min_p50_max[OF h] h by simp
qed

text \<open>
  \<^bold>\<open>C5\<close> (as amended). \<^const>\<open>get_sample_rates_data\<close> does not sort: each of its
  four percentile fields is \<^const>\<open>percentile_fn\<close> of the list as it is given, so for a
  non-empty list \<open>p50\<close> is the element at position \<open>len(data) // 2\<close> in the given order,
  where the summary of the sorted copy has the element at that position of the sorted
  copy. Only \<open>min\<close> and \<open>max\<close> are the same for the list and its sorted copy.
\<close>

theorem summarize_reads_list_as_given:
  assumes "data \<noteq> []"
  shows "\<exists>d d'. get_sample_rates_data data = Inr d
           \<and> get_sample_rates_data (sort data) = Inr d'
           \<and> percentile_fn data (5 / 10) = Inr (p50 d)
           \<and> percentile_fn data (9 / 10) = Inr (p90 d)
           \<and> percentile_fn data (95 / 100) = Inr (p95 d)
           \<and> percentile_fn data (99 / 100) = Inr (p99 d)
           \<and> p50 d = Some (data ! (length data div 2))
           \<and> p50 d' = Some (sort data ! (length data div 2))
           \<and> min_val d' = min_val d \<and> max_val d' = max_val d"
proof -
  have ne: "sort data \<noteq> []" using assms by (metis length_sort length_0_conv)
  obtain v50 v90 v95 v99 where d: "get_sample_rates_data data =
             Inr \<lparr> min_val = Some (Min (set data)), max_val = Some (Max (set data)),
                   mean = Some (sum_list data / of_nat (length data)),
                   p50 = Some v50, p90 = Some v90, p95 = Some v95, p99 = Some v99 \<rparr>"
    using get_sample_rates_data_nonempty[OF assms] by blast
  obtain w50 w90 w95 w99 where d': "get_sample_rates_data (sort data) =
             Inr \<lparr> min_val = Some (Min (set (sort data))), max_val = Some (Max (set (sort data))),
                   mean = Some (sum_list (sort data) / of_nat (length (sort data))),
                   p50 = Some w50, p90 = Some w90, p95 = Some w95, p99 = Some w99 \<rparr>"
    using get_sample_rates_data_nonempty[OF ne] by blast
  have fields: "percentile_fn data (5 / 10) = Inr (Some v50)"
    "percentile_fn data (9 / 10) = Inr (Some v90)"
    "percentile_fn data (95 / 100) = Inr (Some v95)"
    "percentile_fn data (99 / 100) = Inr (Some v99)"
    using d by (auto simp: get_sample_rates_data_def split: sum.splits if_splits)
  have fields': "percentile_fn (sort data) (5 / 10) = Inr (Some w50)"
    using d' by (auto simp: get_sample_rates_data_def split: sum.splits if_splits)
  have m: "v50 = data ! (length data div 2)"
    using fields(1) percentile_fn_median[OF assms] by simp
  have m': "w50 = sort data ! (length data div 2)"
    using fields' percentile_fn_median[OF ne] by simp
  show ?thesis using d d' fields m m' by simp
qed

theorem summarize_reads_list_as_given_witness:
  "[3, 1, 2 :: rat] \<noteq> []
   \<and> (\<exists>d d'. get_sample_rates_data [3, 1, 2] = Inr d
           \<and> get_sample_rates_data (sort [3, 1, 2]) = Inr d'
           \<and> p50 d = Some 1 \<and> p50 d' = Some 2
           \<and> min_val d' = min_val d \<and> max_val d' = max_val d)"
proof -
  have h: "[3, 1, 2 :: rat] \<noteq> []" by simp
  have s: "sort [3, 1, 2 :: rat] ! (length [3, 1, 2 :: rat] div 2) = 2" by code_simp
  have g: "[3, 1, 2 :: rat] ! (length [3, 1, 2 :: rat] div 2) = 1" by code_simp
  show ?thesis using summarize_reads_list_as_given[OF h] h s g by auto
qed

text \<open>On \<^verbatim>\<open>[3, 1, 2]\<close> the summary differs from the summary of the sorted copy
  \<^verbatim>\<open>[1, 2, 3]\<close>: \<open>p50\<close> is 1 on the former and 2 on the latter.\<close>

theorem summarize_unsorted_counterexample:
  "get_sample_rates_data [3, 1, 2] \<noteq> get_sample_rates_data (sort [3, 1, 2])"
  by code_simp

section \<open>Properties of the endpoint\<close>

text \<open>
  Sorting keeps the number of sample rates, the conversion to floats drops some of them,
  and the percentage of missing rates is a fraction of the sample.
\<close>

lemma py_sorted_length: "py_sorted vs = Inr ys \<Longrightarrow> length ys = length vs"
  by (auto simp: py_sorted_def split: if_splits)

lemma float_sample_rates_length:
  "float_sample_rates f vs = Inr rs \<Longrightarrow> length rs \<le> length vs"
proof (induction vs arbitrary: rs)
  case Nil
  then show ?case by simp
next
  case (Cons v vs)
  then show ?case by (auto split: if_splits sum.splits)
qed

lemma null_ratio_bounds:
  assumes "k \<le> n" "0 < n"
  shows "0 \<le> rat_of_int (int n - int k) / rat_of_nat n * 100"
    and "rat_of_int (int n - int k) / rat_of_nat n * 100 \<le> 100"
proof -
  have a: "0 \<le> rat_of_int (int n - int k)" using assms(1) by simp
  have b: "rat_of_int (int n - int k) \<le> rat_of_nat n" using assms(1) by simp
  have c: "0 < rat_of_nat n" using assms(2) by simp
  show "0 \<le> rat_of_int (int n - int k) / rat_of_nat n * 100" using a c by simp
  have "rat_of_int (int n - int k) / rat_of_nat n \<le> 1" using b c by (simp add: divide_le_eq)
  then have "rat_of_int (int n - int k) / rat_of_nat n * 100 \<le> 1 * 100"
    by (rule mult_right_mono) simp
  then show "rat_of_int (int n - int k) / rat_of_nat n * 100 \<le> 100" by simp
qed

text \<open>
  The response on each path through \<^const>\<open>get\<close> once the sample is not empty and no
  exception has escaped: without and with the project breakdown.
\<close>

lemma get_non_distributed:
  assumes "has_feature request"
    and "GET_distributedTrace request \<noteq> ''1''"
    and "discover_query (root_transactions_call request) = Inr root_transactions"
    and "root_transactions \<noteq> []"
    and "py_sorted (map (\<lambda>t. dict_get t ''trace.client_sample_rate'') root_transactions)
           = Inr sample_rates"
    and "float_sample_rates float_of_str sample_rates = Inr floats"
    and "get_sample_rates_data (sort floats) = Inr distributions"
  shows "get float_of_str discover_query request =
           (Inr \<lparr> status_code = 200,
                  response_data = Report \<lparr>
                    project_breakdown = None,
                    sample_size = length root_transactions,
                    null_sample_rate_percentage =
                      Some (of_int (int (length root_transactions) - int (length floats))
                              / of_nat (length root_transactions) * 100),
                    sample_rate_distributions = Some distributions \<rparr> \<rparr>,
            [root_transactions_call request])"
proof -
  have "length sample_rates = length root_transactions"
    using py_sorted_length[OF assms(5)] by simp
  then have ne: "length sample_rates \<noteq> 0" using assms(4) by simp
  show ?thesis
    using assms ne by (simp add: get_def Let_def py_truediv_def)
qed

lemma get_distributed:
  assumes "has_feature request"
    and "GET_distributedTrace request = ''1''"
    and "discover_query (root_transactions_call request) = Inr root_transactions"
    and "root_transactions \<noteq> []"
    and "py_sorted (map (\<lambda>t. dict_get t ''trace.client_sample_rate'') root_transactions)
           = Inr sample_rates"
    and "float_sample_rates float_of_str sample_rates = Inr floats"
    and "py_join '','' (map (\<lambda>t. dict_get t ''trace'') root_transactions) = Inr joined"
    and "discover_query (project_breakdown_call request joined) = Inr breakdown"
    and "get_sample_rates_data (sort floats) = Inr distributions"
  shows "get float_of_str discover_query request =
           (if 10 < length breakdown then
              Inr \<lparr> status_code = 400,
                    response_data =
                      Details ''Way too many projects in the distributed trace's project breakdown'' \<rparr>
            else
              Inr \<lparr> status_code = 200,
                    response_data = Report \<lparr>
                      project_breakdown = Some breakdown,
                      sample_size = length root_transactions,
                      null_sample_rate_percentage =
                        Some (of_int (int (length root_transactions) - int (length floats))
                                / of_nat (length root_transactions) * 100),
                      sample_rate_distributions = Some distributions \<rparr> \<rparr>,
            [root_transactions_call request, project_breakdown_call request joined])"
proof -
  have "length sample_rates = length root_transactions"
    using py_sorted_length[OF assms(5)] by simp
  then have ne: "length sample_rates \<noteq> 0" using assms(4) by simp
  show ?thesis
    using assms ne by (simp add: get_def Let_def py_truediv_def)
qed

text \<open>Every report that \<^const>\<open>get\<close> returns is either the report of the empty sample
  or carries a percentage between 0 and 100 and a summary.\<close>

lemma get_report_shape:
  assumes "get float_of_str discover_query request = (Inr r, calls)"
    and "response_data r = Report rep"
  shows "(sample_size rep = 0 \<and> null_sample_rate_percentage rep = None
            \<and> sample_rate_distributions rep = None \<and> project_breakdown rep = None)
       \<or> (0 < sample_size rep
            \<and> (\<exists>x. null_sample_rate_percentage rep = Some x \<and> 0 \<le> x \<and> x \<le> 100)
            \<and> (\<exists>d. sample_rate_distributions rep = Some d))"
proof (cases "has_feature request")
  case False
  then show ?thesis using assms by (auto simp: get_def)
next
  case True
  show ?thesis
  proof (cases "discover_query (root_transactions_call request)")
    case (Inl e)
    then show ?thesis using assms True by (simp add: get_def Let_def)
  next
    case (Inr root_transactions)
    note rows = Inr
    show ?thesis
    proof (cases "py_sorted (map (\<lambda>t. dict_get t ''trace.client_sample_rate'') root_transactions)")
      case (Inl e)
      then show ?thesis using assms True rows by (simp add: get_def Let_def)
    next
      case (Inr sample_rates)
      note sorted_rates = Inr
      have len: "length sample_rates = length root_transactions"
        using py_sorted_length[OF sorted_rates] by simp
      show ?thesis
      proof (cases "length sample_rates = 0")
        case True
        then show ?thesis using assms \<open>has_feature request\<close> rows sorted_rates len
          by (auto simp: get_def Let_def)
      next
        case False
        show ?thesis
        proof (cases "float_sample_rates float_of_str sample_rates")
          case (Inl e)
          then show ?thesis using assms True rows sorted_rates False
            by (simp add: get_def Let_def)
        next
          case (Inr floats)
          have k: "length (sort floats) \<le> length root_transactions"
            using float_sample_rates_length[OF Inr] len by simp
          have n: "0 < length root_transactions" using False len by simp
          obtain d where d: "get_sample_rates_data (sort floats) = Inr d"
            using get_sample_rates_data_total by blast
          define x where "x = rat_of_int (int (length root_transactions) - int (length (sort floats)))
                                / rat_of_nat (length root_transactions) * 100"
          have x: "0 \<le> x" "x \<le> 100"
            unfolding x_def using null_ratio_bounds[OF k n] by simp_all
          have "\<exists>pb. r = \<lparr> status_code = 200,
                  response_data = Report \<lparr>
                    project_breakdown = pb,
                    sample_size = length root_transactions,
                    null_sample_rate_percentage = Some x,
                    sample_rate_distributions = Some d \<rparr> \<rparr>"
            using assms True rows sorted_rates False Inr n d unfolding x_def
            by (auto simp: get_def Let_def py_truediv_def split: if_splits sum.splits)
          then obtain pb where "rep = \<lparr> project_breakdown = pb,
                    sample_size = length root_transactions,
                    null_sample_rate_percentage = Some x,
                    sample_rate_distributions = Some d \<rparr>"
            using assms(2) by auto
          then show ?thesis using x n by simp
        qed
      qed
    qed
  qed
qed

text \<open>
  \<^bold>\<open>C3\<close>. When the feature is enabled and the query of the root transactions returns
  no row, \<^const>\<open>get\<close> returns the response with status 200 whose report has
  \<open>sample_size = 0\<close> and \<^verbatim>\<open>None\<close> for \<open>null_sample_rate_percentage\<close>,
  \<open>sample_rate_distributions\<close> and \<open>project_breakdown\<close>. The only call made is the query
  of the root transactions, whatever the \<^verbatim>\<open>distributedTrace\<close> parameter is.
\<close>

theorem empty_sample_report:
  assumes "has_feature request"
    and "discover_query (root_transactions_call request) = Inr []"
  shows "get float_of_str discover_query request =
           (Inr \<lparr> status_code = 200,
                  response_data = Report \<lparr>
                    project_breakdown = None,
                    sample_size = 0,
                    null_sample_rate_percentage = None,
                    sample_rate_distributions = None \<rparr> \<rparr>,
            [root_transactions_call request])"
  using assms by (simp add: get_def Let_def py_sorted_def)

theorem empty_sample_report_witness:
  "has_feature (sample_request ''1'')
   \<and> GET_distributedTrace (sample_request ''1'') = ''1''
   \<and> sample_discover [] (sample_breakdown 3) (root_transactions_call (sample_request ''1'')) = Inr []
   \<and> get sample_float_of_str (sample_discover [] (sample_breakdown 3)) (sample_request ''1'') =
           (Inr \<lparr> status_code = 200,
                  response_data = Report \<lparr>
                    project_breakdown = None,
                    sample_size = 0,
                    null_sample_rate_percentage = None,
                    sample_rate_distributions = None \<rparr> \<rparr>,
            [root_transactions_call (sample_request ''1'')])"
proof -
  have h1: "has_feature (sample_request ''1'')" by (simp add: sample_request_def)
  have h2: "sample_discover [] (sample_breakdown 3) (root_transactions_call (sample_request ''1'')) = Inr []"
    by (simp add: sample_discover_def root_transactions_call_def)
  have h3: "GET_distributedTrace (sample_request ''1'') = ''1''" by (simp add: sample_request_def)
  show ?thesis
    using empty_sample_report[where discover_query = "sample_discover [] (sample_breakdown 3)"
        and float_of_str = sample_float_of_str, OF h1 h2] h1 h2 h3
    by simp
qed

text \<open>
  \<^bold>\<open>C4\<close>. In every report that \<^const>\<open>get\<close> returns,
  \<open>null_sample_rate_percentage\<close> is present exactly when \<open>sample_size > 0\<close>, so is
  \<open>sample_rate_distributions\<close>, and a present percentage lies between 0 and 100.
\<close>

theorem report_fields_together:
  assumes "get float_of_str discover_query request = (Inr r, calls)"
    and "response_data r = Report rep"
  shows "((null_sample_rate_percentage rep \<noteq> None) = (0 < sample_size rep))
       \<and> ((sample_rate_distributions rep \<noteq> None) = (0 < sample_size rep))
       \<and> (\<forall>x. null_sample_rate_percentage rep = Some x \<longrightarrow> 0 \<le> x \<and> x \<le> 100)"
  using get_report_shape[OF assms] by auto

theorem report_fields_together_witness:
  "get sample_float_of_str
       (sample_discover (sample_rows [PyStr ''0.5'', PyStr []]) []) (sample_request ''0'') =
     (Inr \<lparr> status_code = 200,
            response_data = Report \<lparr>
              project_breakdown = None,
              sample_size = 2,
              null_sample_rate_percentage = Some 50,
              sample_rate_distributions =
                Some \<lparr> min_val = Some (1 / 2), max_val = Some (1 / 2), mean = Some (1 / 2),
                       p50 = Some (1 / 2), p90 = Some (1 / 2), p95 = Some (1 / 2),
                       p99 = Some (1 / 2) \<rparr> \<rparr> \<rparr>,
      [root_transactions_call (sample_request ''0'')])
   \<and> (0 :: rat) \<le> 50 \<and> (50 :: rat) \<le> 100"
proof -
  have h1: "get sample_float_of_str
       (sample_discover (sample_rows [PyStr ''0.5'', PyStr []]) []) (sample_request ''0'') =
     (Inr \<lparr> status_code = 200,
            response_data = Report \<lparr>
              project_breakdown = None,
              sample_size = 2,
              null_sample_rate_percentage = Some 50,
              sample_rate_distributions =
                Some \<lparr> min_val = Some (1 / 2), max_val = Some (1 / 2), mean = Some (1 / 2),
                       p50 = Some (1 / 2), p90 = Some (1 / 2), p95 = Some (1 / 2),
                       p99 = Some (1 / 2) \<rparr> \<rparr> \<rparr>,
      [root_transactions_call (sample_request ''0'')])"
    by code_simp
  show ?thesis using report_fields_together[OF h1] h1 by simp
qed

text \<open>
  \<^bold>\<open>C2\<close>. In distributed mode, with a sample that is not empty and whose rates and trace
  identifiers raise nothing, let the breakdown query return one row per project. Then
  \<^const>\<open>get\<close> answers with the status 400 and its message alone if and only if more
  than 10 projects came back; with 10 or fewer it returns the report with status 200 whose
  \<open>project_breakdown\<close> is the list of all rows that came back.
\<close>

theorem breakdown_cap_iff:
  assumes "has_feature request"
    and "GET_distributedTrace request = ''1''"
    and "discover_query (root_transactions_call request) = Inr root_transactions"
    and "root_transactions \<noteq> []"
    and "py_sorted (map (\<lambda>t. dict_get t ''trace.client_sample_rate'') root_transactions)
           = Inr sample_rates"
    and "float_sample_rates float_of_str sample_rates = Inr floats"
    and "py_join '','' (map (\<lambda>t. dict_get t ''trace'') root_transactions) = Inr joined"
    and "discover_query (project_breakdown_call request joined) = Inr breakdown"
    and "distinct (map (\<lambda>entry. dict_get entry ''project'') breakdown)"
  shows "((fst (get float_of_str discover_query request) =
             Inr \<lparr> status_code = 400,
                   response_data =
                     Details ''Way too many projects in the distributed trace's project breakdown'' \<rparr>)
          = (10 < card (set (map (\<lambda>entry. dict_get entry ''project'') breakdown))))
       \<and> (card (set (map (\<lambda>entry. dict_get entry ''project'') breakdown)) \<le> 10 \<longrightarrow>
            (\<exists>rep. fst (get float_of_str discover_query request) =
                     Inr \<lparr> status_code = 200, response_data = Report rep \<rparr>
                 \<and> project_breakdown rep = Some breakdown))"
proof -
  have n: "card (set (map (\<lambda>entry. dict_get entry ''project'') breakdown)) = length breakdown"
    using distinct_card[OF assms(9)] by simp
  obtain d where d: "get_sample_rates_data (sort floats) = Inr d"
    using get_sample_rates_data_total by blast
  show ?thesis
    unfolding n get_distributed[OF assms(1-8) d] by simp
qed

theorem breakdown_cap_iff_witness:
  "has_feature (sample_request ''1'')
   \<and> GET_distributedTrace (sample_request ''1'') = ''1''
   \<and> sample_rows [PyStr ''0.5''] \<noteq> []
   \<and> py_sorted (map (\<lambda>t. dict_get t ''trace.client_sample_rate'') (sample_rows [PyStr ''0.5'']))
        = Inr [PyStr ''0.5'']
   \<and> float_sample_rates sample_float_of_str [PyStr ''0.5''] = Inr [1 / 2]
   \<and> py_join '','' (map (\<lambda>t. dict_get t ''trace'') (sample_rows [PyStr ''0.5''])) = Inr ''6503ee33''
   \<and> distinct (map (\<lambda>entry. dict_get entry ''project'') (sample_breakdown 11))
   \<and> card (set (map (\<lambda>entry. dict_get entry ''project'') (sample_breakdown 11))) = 11
   \<and> fst (get sample_float_of_str
             (sample_discover (sample_rows [PyStr ''0.5'']) (sample_breakdown 11))
             (sample_request ''1'')) =
       Inr \<lparr> status_code = 400,
             response_data =
               Details ''Way too many projects in the distributed trace's project breakdown'' \<rparr>
   \<and> distinct (map (\<lambda>entry. dict_get entry ''project'') (sample_breakdown 10))
   \<and> card (set (map (\<lambda>entry. dict_get entry ''project'') (sample_breakdown 10))) = 10
   \<and> (\<exists>rep. fst (get sample_float_of_str
                    (sample_discover (sample_rows [PyStr ''0.5'']) (sample_breakdown 10))
                    (sample_request ''1'')) =
               Inr \<lparr> status_code = 200, response_data = Report rep \<rparr>
            \<and> project_breakdown rep = Some (sample_breakdown 10))"
proof -
  let ?rows = "sample_rows [PyStr ''0.5'']"
  have h1: "has_feature (sample_request ''1'')" by (simp add: sample_request_def)
  have h2: "GET_distributedTrace (sample_request ''1'') = ''1''" by (simp add: sample_request_def)
  have h3: "sample_discover ?rows breakdown (root_transactions_call (sample_request ''1''))
              = Inr ?rows" for breakdown
    by (simp add: sample_discover_def root_transactions_call_def)
  have h4: "?rows \<noteq> []" by (simp add: sample_rows_def)
  have h5: "py_sorted (map (\<lambda>t. dict_get t ''trace.client_sample_rate'') ?rows)
        = Inr [PyStr ''0.5'']"
    by code_simp
  have h6: "float_sample_rates sample_float_of_str [PyStr ''0.5''] = Inr [1 / 2]" by code_simp
  have h7: "py_join '','' (map (\<lambda>t. dict_get t ''trace'') ?rows) = Inr ''6503ee33''"
    by code_simp
  have h8: "sample_discover ?rows breakdown
        (project_breakdown_call (sample_request ''1'') ''6503ee33'') = Inr breakdown" for breakdown
    by (simp add: sample_discover_def project_breakdown_call_def)
  have d11: "distinct (map (\<lambda>entry. dict_get entry ''project'') (sample_breakdown 11))"
    by code_simp
  have c11: "card (set (map (\<lambda>entry. dict_get entry ''project'') (sample_breakdown 11))) = 11"
    using distinct_card[OF d11] by (simp add: sample_breakdown_def)
  have d10: "distinct (map (\<lambda>entry. dict_get entry ''project'') (sample_breakdown 10))"
    by code_simp
  have c10: "card (set (map (\<lambda>entry. dict_get entry ''project'') (sample_breakdown 10))) = 10"
    using distinct_card[OF d10] by (simp add: sample_breakdown_def)
  have too_many: "fst (get sample_float_of_str (sample_discover ?rows (sample_breakdown 11))
             (sample_request ''1'')) =
       Inr \<lparr> status_code = 400,
             response_data =
               Details ''Way too many projects in the distributed trace's project breakdown'' \<rparr>"
    using breakdown_cap_iff[where float_of_str = sample_float_of_str
        and discover_query = "sample_discover ?rows (sample_breakdown 11)",
        OF h1 h2 h3 h4 h5 h6 h7 h8 d11] c11
    by simp
  have within: "\<exists>rep. fst (get sample_float_of_str
                    (sample_discover ?rows (sample_breakdown 10)) (sample_request ''1'')) =
               Inr \<lparr> status_code = 200, response_data = Report rep \<rparr>
            \<and> project_breakdown rep = Some (sample_breakdown 10)"
    using breakdown_cap_iff[where float_of_str = sample_float_of_str
        and discover_query = "sample_discover ?rows (sample_breakdown 10)",
        OF h1 h2 h3 h4 h5 h6 h7 h8 d10] c10
    by simp
  show ?thesis using h1 h2 h4 h5 h6 h7 d11 c11 too_many d10 c10 within by blast
qed

text \<open>
  \<^bold>\<open>C10\<close> (as amended). Under the same conditions the outcome of \<^const>\<open>get\<close> tells
  three cases apart. A failure of the breakdown query escapes as the exception it raised.
  More than 10 rows give the response with status 400 whose \<^verbatim>\<open>details\<close> is exactly
  \<^verbatim>\<open>Way too many projects in the distributed trace's project breakdown\<close>. Anything else
  gives a report with status 200.
\<close>

theorem eligibility_failure_response:
  assumes "has_feature request"
    and "GET_distributedTrace request = ''1''"
    and "discover_query (root_transactions_call request) = Inr root_transactions"
    and "root_transactions \<noteq> []"
    and "py_sorted (map (\<lambda>t. dict_get t ''trace.client_sample_rate'') root_transactions)
           = Inr sample_rates"
    and "float_sample_rates float_of_str sample_rates = Inr floats"
    and "py_join '','' (map (\<lambda>t. dict_get t ''trace'') root_transactions) = Inr joined"
  shows "case discover_query (project_breakdown_call request joined) of
           Inl e \<Rightarrow> fst (get float_of_str discover_query request) = Inl e
         | Inr breakdown \<Rightarrow>
             if 10 < length breakdown
             then fst (get float_of_str discover_query request) =
                    Inr \<lparr> status_code = 400,
                          response_data =
                            Details ''Way too many projects in the distributed trace's project breakdown'' \<rparr>
             else \<exists>rep. fst (get float_of_str discover_query request) =
                    Inr \<lparr> status_code = 200, response_data = Report rep \<rparr>"
proof (cases "discover_query (project_breakdown_call request joined)")
  case (Inl e)
  have "length sample_rates = length root_transactions"
    using py_sorted_length[OF assms(5)] by simp
  then have ne: "length sample_rates \<noteq> 0" using assms(4) by simp
  show ?thesis using assms ne Inl by (simp add: get_def Let_def)
next
  case (Inr breakdown)
  obtain d where d: "get_sample_rates_data (sort floats) = Inr d"
    using get_sample_rates_data_total by blast
  show ?thesis
    unfolding Inr get_distributed[OF assms Inr d] by simp
qed

theorem eligibility_failure_response_witness:
  "has_feature (sample_request ''1'')
   \<and> GET_distributedTrace (sample_request ''1'') = ''1''
   \<and> sample_rows [PyStr ''0.2'', PyStr ''0.1''] \<noteq> []
   \<and> py_sorted (map (\<lambda>t. dict_get t ''trace.client_sample_rate'')
                   (sample_rows [PyStr ''0.2'', PyStr ''0.1'']))
        = Inr [PyStr ''0.1'', PyStr ''0.2'']
   \<and> float_sample_rates sample_float_of_str [PyStr ''0.1'', PyStr ''0.2''] = Inr [1 / 10, 2 / 10]
   \<and> py_join '','' (map (\<lambda>t. dict_get t ''trace'') (sample_rows [PyStr ''0.2'', PyStr ''0.1'']))
        = Inr ''6503ee33,6503ee33''
   \<and> length (sample_breakdown 12) = 12
   \<and> fst (get sample_float_of_str
             (sample_discover (sample_rows [PyStr ''0.2'', PyStr ''0.1'']) (sample_breakdown 12))
             (sample_request ''1'')) =
       Inr \<lparr> status_code = 400,
             response_data =
               Details ''Way too many projects in the distributed trace's project breakdown'' \<rparr>
   \<and> fst (get sample_float_of_str
             (sample_discover_failing (sample_rows [PyStr ''0.2'', PyStr ''0.1'']))
             (sample_request ''1'')) = Inl UpstreamQueryError"
proof -
  let ?rows = "sample_rows [PyStr ''0.2'', PyStr ''0.1'']"
  have h1: "has_feature (sample_request ''1'')" by (simp add: sample_request_def)
  have h2: "GET_distributedTrace (sample_request ''1'') = ''1''" by (simp add: sample_request_def)
  have h3: "sample_discover ?rows (sample_breakdown 12)
        (root_transactions_call (sample_request ''1'')) = Inr ?rows"
    by (simp add: sample_discover_def root_transactions_call_def)
  have h3': "sample_discover_failing ?rows
        (root_transactions_call (sample_request ''1'')) = Inr ?rows"
    by (simp add: sample_discover_failing_def root_transactions_call_def)
  have h4: "?rows \<noteq> []" by (simp add: sample_rows_def)
  have h5: "py_sorted (map (\<lambda>t. dict_get t ''trace.client_sample_rate'') ?rows)
        = Inr [PyStr ''0.1'', PyStr ''0.2'']"
    by code_simp
  have h6: "float_sample_rates sample_float_of_str [PyStr ''0.1'', PyStr ''0.2''] = Inr [1 / 10, 2 / 10]"
    by code_simp
  have h7: "py_join '','' (map (\<lambda>t. dict_get t ''trace'') ?rows) = Inr ''6503ee33,6503ee33''"
    by code_simp
  have b: "sample_discover ?rows (sample_breakdown 12)
        (project_breakdown_call (sample_request ''1'') ''6503ee33,6503ee33'') = Inr (sample_breakdown 12)"
    by (simp add: sample_discover_def project_breakdown_call_def)
  have b': "sample_discover_failing ?rows
        (project_breakdown_call (sample_request ''1'') ''6503ee33,6503ee33'') = Inl UpstreamQueryError"
    by (simp add: sample_discover_failing_def project_breakdown_call_def)
  have len: "length (sample_breakdown 12) = 12" by (simp add: sample_breakdown_def)
  have too_many: "fst (get sample_float_of_str (sample_discover ?rows (sample_breakdown 12))
             (sample_request ''1'')) =
       Inr \<lparr> status_code = 400,
             response_data =
               Details ''Way too many projects in the distributed trace's project breakdown'' \<rparr>"
    using eligibility_failure_response[where float_of_str = sample_float_of_str
        and discover_query = "sample_discover ?rows (sample_breakdown 12)",
        OF h1 h2 h3 h4 h5 h6 h7] b len
    by simp
  have upstream: "fst (get sample_float_of_str (sample_discover_failing ?rows)
             (sample_request ''1'')) = Inl UpstreamQueryError"
    using eligibility_failure_response[where float_of_str = sample_float_of_str
        and discover_query = "sample_discover_failing ?rows",
        OF h1 h2 h3' h4 h5 h6 h7] b'
    by simp
  show ?thesis using h1 h2 h4 h5 h6 h7 len too_many upstream by simp
qed

text \<open>With 11 projects in the breakdown the message of the response is not
  \<^verbatim>\<open>too many projects in the distributed trace breakdown\<close>.\<close>

theorem eligibility_message_counterexample:
  "fst (get sample_float_of_str
          (sample_discover (sample_rows [PyStr ''0.5'']) (sample_breakdown 11))
          (sample_request ''1'')) =
     Inr \<lparr> status_code = 400,
           response_data =
             Details ''Way too many projects in the distributed trace's project breakdown'' \<rparr>
   \<and> ''Way too many projects in the distributed trace's project breakdown''
         \<noteq> ''too many projects in the distributed trace breakdown''"
  by code_simp

text \<open>
  \<^bold>\<open>C6\<close>. Five root transactions with the client sample rates
  \<^verbatim>\<open>[0.1, None, 0.2, 0.5, None]\<close>, non-distributed mode: the first
  \<^verbatim>\<open>sorted(...)\<close> over the raw rates compares \<^verbatim>\<open>None\<close> with a number, so
  \<^verbatim>\<open>TypeError\<close> escapes after the query of the root transactions and no report is
  returned, although the filter that follows is written to skip \<^verbatim>\<open>None\<close>.
\<close>

theorem scenario_B_none_raises:
  "get sample_float_of_str
     (sample_discover
        (sample_rows [PyNum (1 / 10), PyNone, PyNum (2 / 10), PyNum (5 / 10), PyNone]) [])
     (sample_request ''0'')
   = (Inl TypeError, [root_transactions_call (sample_request ''0'')])"
  by code_simp

text \<open>
  The same five rates delivered as strings, with the empty string for a missing rate,
  raise nothing: the report has \<open>sample_size = 5\<close>, \<open>null_sample_rate_percentage = 40\<close>
  and the summary of \<^verbatim>\<open>[0.1, 0.2, 0.5]\<close>, whose \<open>min\<close> is 0.1, \<open>max\<close> is 0.5 and
  \<open>mean\<close> is 4/15, within 0.0001 of 0.2667.
\<close>

lemma scenario_B_strings:
  assumes "has_feature request"
    and "GET_distributedTrace request \<noteq> ''1''"
    and "discover_query (root_transactions_call request) = Inr root_transactions"
    and "map (\<lambda>t. dict_get t ''trace.client_sample_rate'') root_transactions =
           [PyStr ''0.1'', PyStr [], PyStr ''0.2'', PyStr ''0.5'', PyStr []]"
    and "float_of_str ''0.1'' = Some (1 / 10)"
    and "float_of_str ''0.2'' = Some (2 / 10)"
    and "float_of_str ''0.5'' = Some (5 / 10)"
  shows "\<exists>d m. get float_of_str discover_query request =
           (Inr \<lparr> status_code = 200,
                  response_data = Report \<lparr>
                    project_breakdown = None,
                    sample_size = 5,
                    null_sample_rate_percentage = Some 40,
                    sample_rate_distributions = Some d \<rparr> \<rparr>,
            [root_transactions_call request])
         \<and> get_sample_rates_data [1 / 10, 2 / 10, 5 / 10] = Inr d
         \<and> min_val d = Some (1 / 10) \<and> max_val d = Some (5 / 10)
         \<and> mean d = Some m \<and> \<bar>m - 2667 / 10000\<bar> < 1 / 10000"
proof -
  have len: "length root_transactions = 5"
    using arg_cong[OF assms(4), of length] by simp
  then have ne: "root_transactions \<noteq> []" by auto
  have srt: "py_sorted [PyStr ''0.1'', PyStr [], PyStr ''0.2'', PyStr ''0.5'', PyStr []]
               = Inr [PyStr [], PyStr [], PyStr ''0.1'', PyStr ''0.2'', PyStr ''0.5'']"
    by code_simp
  have fl: "float_sample_rates float_of_str
              [PyStr [], PyStr [], PyStr ''0.1'', PyStr ''0.2'', PyStr ''0.5'']
            = Inr [1 / 10, 2 / 10, 5 / 10]"
    using assms(5-7) by (simp add: py_float_def)
  have so: "sort [1 / 10, 2 / 10, 5 / 10 :: rat] = [1 / 10, 2 / 10, 5 / 10]"
    by code_simp
  have d: "get_sample_rates_data [1 / 10, 2 / 10, 5 / 10] =
             Inr \<lparr> min_val = Some (1 / 10), max_val = Some (5 / 10), mean = Some (4 / 15),
                   p50 = Some (2 / 10), p90 = Some (5 / 10), p95 = Some (5 / 10),
                   p99 = Some (5 / 10) \<rparr>"
    by code_simp
  have "get float_of_str discover_query request =
           (Inr \<lparr> status_code = 200,
                  response_data = Report \<lparr>
                    project_breakdown = None,
                    sample_size = 5,
                    null_sample_rate_percentage = Some 40,
                    sample_rate_distributions =
                      Some \<lparr> min_val = Some (1 / 10), max_val = Some (5 / 10), mean = Some (4 / 15),
                             p50 = Some (2 / 10), p90 = Some (5 / 10), p95 = Some (5 / 10),
                             p99 = Some (5 / 10) \<rparr> \<rparr> \<rparr>,
            [root_transactions_call request])"
    using get_non_distributed[where discover_query = discover_query and request = request
        and root_transactions = root_transactions and float_of_str = float_of_str
        and sample_rates = "[PyStr [], PyStr [], PyStr ''0.1'', PyStr ''0.2'', PyStr ''0.5'']"
        and floats = "[1 / 10, 2 / 10, 5 / 10]"] assms(1-4) ne srt fl so d len
    by simp
  moreover have "\<bar>(4 / 15 :: rat) - 2667 / 10000\<bar> < 1 / 10000" by simp
  ultimately show ?thesis using d
    by (intro exI[where x = "\<lparr> min_val = Some (1 / 10), max_val = Some (5 / 10),
            mean = Some (4 / 15), p50 = Some (2 / 10), p90 = Some (5 / 10), p95 = Some (5 / 10),
            p99 = Some (5 / 10) \<rparr>"] exI[where x = "4 / 15"]) simp
qed

lemma scenario_B_strings_sample:
  "\<exists>d. fst (get sample_float_of_str
             (sample_discover
                (sample_rows [PyStr ''0.1'', PyStr [], PyStr ''0.2'', PyStr ''0.5'', PyStr []]) [])
             (sample_request ''0'')) =
         Inr \<lparr> status_code = 200,
               response_data = Report \<lparr>
                 project_breakdown = None,
                 sample_size = 5,
                 null_sample_rate_percentage = Some 40,
                 sample_rate_distributions = Some d \<rparr> \<rparr>
       \<and> min_val d = Some (1 / 10) \<and> max_val d = Some (5 / 10) \<and> mean d = Some (4 / 15)"
proof -
  let ?rows = "sample_rows [PyStr ''0.1'', PyStr [], PyStr ''0.2'', PyStr ''0.5'', PyStr []]"
  have h1: "has_feature (sample_request ''0'')" by (simp add: sample_request_def)
  have h2: "GET_distributedTrace (sample_request ''0'') \<noteq> ''1''" by (simp add: sample_request_def)
  have h3: "sample_discover ?rows [] (root_transactions_call (sample_request ''0'')) = Inr ?rows"
    by (simp add: sample_discover_def root_transactions_call_def)
  have h4: "map (\<lambda>t. dict_get t ''trace.client_sample_rate'') ?rows =
              [PyStr ''0.1'', PyStr [], PyStr ''0.2'', PyStr ''0.5'', PyStr []]"
    by code_simp
  have h5: "sample_float_of_str ''0.1'' = Some (1 / 10)" by code_simp
  have h6: "sample_float_of_str ''0.2'' = Some (2 / 10)" by code_simp
  have h7: "sample_float_of_str ''0.5'' = Some (5 / 10)" by code_simp
  obtain d where "get sample_float_of_str (sample_discover ?rows []) (sample_request ''0'') =
           (Inr \<lparr> status_code = 200,
                  response_data = Report \<lparr>
                    project_breakdown = None,
                    sample_size = 5,
                    null_sample_rate_percentage = Some 40,
                    sample_rate_distributions = Some d \<rparr> \<rparr>,
            [root_transactions_call (sample_request ''0'')])"
      and "get_sample_rates_data [1 / 10, 2 / 10, 5 / 10] = Inr d"
      and "min_val d = Some (1 / 10)" and "max_val d = Some (5 / 10)"
    using scenario_B_strings[where discover_query = "sample_discover ?rows []"
        and float_of_str = sample_float_of_str, OF h1 h2 h3 h4 h5 h6 h7]
    by blast
  moreover have "get_sample_rates_data [1 / 10, 2 / 10, 5 / 10] =
             Inr \<lparr> min_val = Some (1 / 10), max_val = Some (5 / 10), mean = Some (4 / 15),
                   p50 = Some (2 / 10), p90 = Some (5 / 10), p95 = Some (5 / 10),
                   p99 = Some (5 / 10) \<rparr>"
    by code_simp
  ultimately show ?thesis by auto
qed

end
